theory Spec2Isabelle
  imports
    Complex_Main
    "HOL-Library.Char_ord"
    "HOL-Library.List_Lexorder"
    "HOL-Library.Multiset"
    "HOL-Library.Product_Lexorder"
begin

section \<open>Data model\<close>

text \<open>
  The server keeps two MongoDB collections, patients and sessions. A collection is
  modelled as the list of its documents in insertion order. Identifiers (\<open>_id\<close>,
  \<open>userId\<close>, \<open>patientId\<close>) are the strings the routes compare. Failures of the
  database itself (the routes' \<open>catch\<close> branches, status 500) and of
  \<open>authenticateToken\<close> (status 401) are outside the model: every route below is
  given the decoded user id and a working database.
\<close>

text \<open>
  Modelled from the spec: the Mongoose schema \<open>server/models/Session.js\<close> is not
  among the sources. The fields are those of section 3 of the specification, which
  are also the Session collection of MONGODB\_SETUP.md:
  \<^verbatim>\<open>
  { _id, userId, patientId, patientName: String, date: String, time: String,
    notes: String, completed: Boolean, amount: Number (optional) }
  \<close>
  The field \<open>notes\<close> is named \<open>s_notes\<close> here (\<open>notes\<close> is a reserved word of
  Isabelle). A stored \<open>amount\<close> is \<open>None\<close> for \<open>null\<close> and \<open>Some n\<close> for a
  number. The patient record follows \<open>server/models/Patient.js\<close>.
\<close>

record patient =
  p_id :: string
  p_userId :: string
  p_name :: string
  p_contactNumber :: string

record session =
  s_id :: string
  userId :: string
  patientId :: string
  patientName :: string
  date :: string
  time :: string
  s_notes :: string
  completed :: bool
  amount :: "rat option"

record db =
  patients :: "patient list"
  sessions :: "session list"

text \<open>
  A JSON request body. A string or boolean field is \<open>None\<close> when the key is absent
  (\<open>undefined\<close> after destructuring). The \<open>amount\<close> key distinguishes \<open>undefined\<close>,
  \<open>null\<close> and a number, because the routes test \<open>amount !== undefined\<close> and
  \<open>amount || null\<close>.
\<close>

datatype 'a js = Undefined | Null | Val 'a

record session_body =
  b_patientId :: "string option"
  b_patientName :: "string option"
  b_date :: "string option"
  b_time :: "string option"
  b_notes :: "string option"
  b_completed :: "bool option"
  b_amount :: "rat js"

text \<open>The status codes the routes answer with: 400, 401, 404 and 500.\<close>

datatype http_error = BadRequest | Unauthorized | NotFound | InternalError

section \<open>JavaScript truthiness and collection primitives\<close>

definition truthy :: "string option \<Rightarrow> bool" where
  \<comment> \<open>\<open>if (v)\<close> on a string or \<open>undefined\<close>: the empty string and \<open>undefined\<close> are falsy\<close>
  "truthy v = (case v of None \<Rightarrow> False | Some s \<Rightarrow> s \<noteq> [])"

definition str_or :: "string option \<Rightarrow> string \<Rightarrow> string" where
  \<comment> \<open>\<open>v || d\<close> on a string or \<open>undefined\<close>\<close>
  "str_or v d = (case v of None \<Rightarrow> d | Some s \<Rightarrow> if s = [] then d else s)"

definition bool_or_false :: "bool option \<Rightarrow> bool" where
  \<comment> \<open>\<open>completed || false\<close>\<close>
  "bool_or_false v = (case v of None \<Rightarrow> False | Some b \<Rightarrow> b)"

definition num_or_null :: "rat js \<Rightarrow> rat option" where
  \<comment> \<open>\<open>amount || null\<close>: \<open>undefined\<close>, \<open>null\<close> and \<open>0\<close> are falsy\<close>
  "num_or_null v = (case v of Undefined \<Rightarrow> None | Null \<Rightarrow> None
                    | Val n \<Rightarrow> if n = 0 then None else Some n)"

definition findOne :: "('a \<Rightarrow> bool) \<Rightarrow> 'a list \<Rightarrow> 'a option" where
  \<comment> \<open>\<open>Model.findOne(query)\<close>: the first matching document, or \<open>null\<close>\<close>
  "findOne P xs = List.find P xs"

fun update_first :: "('a \<Rightarrow> bool) \<Rightarrow> ('a \<Rightarrow> 'a) \<Rightarrow> 'a list \<Rightarrow> 'a list" where
  \<comment> \<open>\<open>doc.save()\<close> of the document \<open>findOne\<close> returned: it is replaced in place\<close>
  "update_first P f [] = []"
| "update_first P f (x # xs) = (if P x then f x # xs else x # update_first P f xs)"

fun remove_first :: "('a \<Rightarrow> bool) \<Rightarrow> 'a list \<Rightarrow> 'a list" where
  \<comment> \<open>\<open>findOneAndDelete\<close> / \<open>findByIdAndDelete\<close>: the first matching document is removed\<close>
  "remove_first P [] = []"
| "remove_first P (x # xs) = (if P x then xs else x # remove_first P xs)"

section \<open>Session routes (server/routes/sessions.js)\<close>

text \<open>
  Every route runs behind \<open>authenticateToken\<close>; the decoded \<open>req.userId\<close> is the
  explicit argument \<open>uid\<close>. The \<open>_id\<close> MongoDB generates for a new document is the
  argument \<open>oid\<close>.
\<close>

definition post_session ::
  "string \<Rightarrow> string \<Rightarrow> session_body \<Rightarrow> db \<Rightarrow> http_error + (session \<times> db)" where
  "post_session uid oid body d =
     (if \<not> truthy (b_patientId body) \<or> \<not> truthy (b_patientName body)
         \<or> \<not> truthy (b_date body) \<or> \<not> truthy (b_time body)
      then Inl BadRequest
      else case findOne (\<lambda>p. p_id p = str_or (b_patientId body) [] \<and> p_userId p = uid)
                  (patients d) of
        None \<Rightarrow> Inl NotFound
      | Some _ \<Rightarrow>
          let s = \<lparr> s_id = oid, userId = uid,
                    patientId = str_or (b_patientId body) [],
                    patientName = str_or (b_patientName body) [],
                    date = str_or (b_date body) [],
                    time = str_or (b_time body) [],
                    s_notes = str_or (b_notes body) [],
                    completed = bool_or_false (b_completed body),
                    amount = num_or_null (b_amount body) \<rparr>
          in Inr (s, d\<lparr>sessions := sessions d @ [s]\<rparr>))"

definition apply_patch :: "session_body \<Rightarrow> session \<Rightarrow> session" where
  \<comment> \<open>the seven guarded assignments of \<open>router.put('/:id')\<close>, in source order\<close>
  "apply_patch body s0 =
     (let s1 = (if truthy (b_patientId body)
                then s0\<lparr>patientId := str_or (b_patientId body) []\<rparr> else s0);
          s2 = (if truthy (b_patientName body)
                then s1\<lparr>patientName := str_or (b_patientName body) []\<rparr> else s1);
          s3 = (if truthy (b_date body) then s2\<lparr>date := str_or (b_date body) []\<rparr> else s2);
          s4 = (if truthy (b_time body) then s3\<lparr>time := str_or (b_time body) []\<rparr> else s3);
          s5 = (case b_notes body of None \<Rightarrow> s4 | Some n \<Rightarrow> s4\<lparr>s_notes := n\<rparr>);
          s6 = (case b_completed body of None \<Rightarrow> s5 | Some c \<Rightarrow> s5\<lparr>completed := c\<rparr>);
          s7 = (case b_amount body of Undefined \<Rightarrow> s6
                | Null \<Rightarrow> s6\<lparr>amount := None\<rparr>
                | Val a \<Rightarrow> s6\<lparr>amount := Some a\<rparr>)
      in s7)"

definition put_session ::
  "string \<Rightarrow> string \<Rightarrow> session_body \<Rightarrow> db \<Rightarrow> http_error + (session \<times> db)" where
  "put_session uid sid body d =
     (case findOne (\<lambda>s. s_id s = sid \<and> userId s = uid) (sessions d) of
        None \<Rightarrow> Inl NotFound
      | Some s \<Rightarrow>
          Inr (apply_patch body s,
               d\<lparr>sessions := update_first (\<lambda>s. s_id s = sid \<and> userId s = uid)
                                (apply_patch body) (sessions d)\<rparr>))"

definition delete_session :: "string \<Rightarrow> string \<Rightarrow> db \<Rightarrow> http_error + db" where
  "delete_session uid sid d =
     (case findOne (\<lambda>s. s_id s = sid \<and> userId s = uid) (sessions d) of
        None \<Rightarrow> Inl NotFound
      | Some _ \<Rightarrow> Inr (d\<lparr>sessions := remove_first (\<lambda>s. s_id s = sid) (sessions d)\<rparr>))"

definition get_session :: "string \<Rightarrow> string \<Rightarrow> db \<Rightarrow> http_error + session" where
  "get_session uid sid d =
     (case findOne (\<lambda>s. s_id s = sid \<and> userId s = uid) (sessions d) of
        None \<Rightarrow> Inl NotFound
      | Some s \<Rightarrow> Inr s)"


section \<open>Patient routes (server/routes/patients.js)\<close>

definition delete_patient :: "string \<Rightarrow> string \<Rightarrow> db \<Rightarrow> http_error + db" where
  \<comment> \<open>\<open>Patient.findOneAndDelete({_id, userId})\<close>; the route touches no other collection\<close>
  "delete_patient uid pid d =
     (case findOne (\<lambda>p. p_id p = pid \<and> p_userId p = uid) (patients d) of
        None \<Rightarrow> Inl NotFound
      | Some _ \<Rightarrow>
          Inr (d\<lparr>patients := remove_first (\<lambda>p. p_id p = pid \<and> p_userId p = uid)
                                (patients d)\<rparr>))"

section \<open>Session queries\<close>

text \<open>
  \<open>Session.find(query).sort(spec)\<close> is a filter followed by a sort. MongoDB compares
  the \<open>date\<close> and \<open>time\<close> strings byte by byte, which is the lexicographic order on
  \<open>string\<close>. The sort is modelled as a stable insertion sort for a given "comes no
  later than" relation. The listings below return the documents themselves; the
  \<open>id\<close> field that \<open>transformSession\<close> adds to each is the document's \<open>s_id\<close>.
\<close>

fun insort_by :: "('a \<Rightarrow> 'a \<Rightarrow> bool) \<Rightarrow> 'a \<Rightarrow> 'a list \<Rightarrow> 'a list" where
  "insort_by le x [] = [x]"
| "insort_by le x (y # ys) = (if le x y then x # y # ys else y # insort_by le x ys)"

definition sort_by :: "('a \<Rightarrow> 'a \<Rightarrow> bool) \<Rightarrow> 'a list \<Rightarrow> 'a list" where
  "sort_by le xs = foldr (insort_by le) xs []"

definition date_time_asc :: "session \<Rightarrow> session \<Rightarrow> bool" where
  \<comment> \<open>\<open>.sort({ date: 1, time: 1 })\<close>\<close>
  "date_time_asc a b \<longleftrightarrow> date a < date b \<or> (date a = date b \<and> time a \<le> time b)"

definition date_time_desc :: "session \<Rightarrow> session \<Rightarrow> bool" where
  \<comment> \<open>\<open>.sort({ date: -1, time: -1 })\<close>\<close>
  "date_time_desc a b \<longleftrightarrow> date b < date a \<or> (date b = date a \<and> time b \<le> time a)"

record session_query =
  q_patientId :: "string option"
  q_startDate :: "string option"
  q_endDate :: "string option"
  q_completed :: "string option"

definition no_filter :: session_query where
  "no_filter = \<lparr> q_patientId = None, q_startDate = None, q_endDate = None,
                  q_completed = None \<rparr>"

definition matches_query :: "string \<Rightarrow> session_query \<Rightarrow> session \<Rightarrow> bool" where
  "matches_query uid q s \<longleftrightarrow>
     userId s = uid
     \<and> (if truthy (q_patientId q) then patientId s = str_or (q_patientId q) [] else True)
     \<and> (case q_completed q of None \<Rightarrow> True | Some c \<Rightarrow> completed s = (c = ''true''))
     \<and> (if truthy (q_startDate q) then str_or (q_startDate q) [] \<le> date s else True)
     \<and> (if truthy (q_endDate q) then date s \<le> str_or (q_endDate q) [] else True)"

definition get_sessions :: "string \<Rightarrow> session_query \<Rightarrow> db \<Rightarrow> session list" where
  \<comment> \<open>\<open>router.get('/')\<close>\<close>
  "get_sessions uid q d = sort_by date_time_desc (filter (matches_query uid q) (sessions d))"

definition get_patient_sessions :: "string \<Rightarrow> string \<Rightarrow> db \<Rightarrow> http_error + session list" where
  \<comment> \<open>\<open>router.get('/patient/:patientId')\<close>\<close>
  "get_patient_sessions uid pid d =
     (case findOne (\<lambda>p. p_id p = pid \<and> p_userId p = uid) (patients d) of
        None \<Rightarrow> Inl NotFound
      | Some _ \<Rightarrow>
          Inr (sort_by date_time_desc
                 (filter (\<lambda>s. userId s = uid \<and> patientId s = pid) (sessions d))))"

definition get_past :: "string \<Rightarrow> db \<Rightarrow> session list" where
  \<comment> \<open>\<open>router.get('/past')\<close>\<close>
  "get_past uid d =
     sort_by date_time_desc (filter (\<lambda>s. userId s = uid \<and> completed s = True) (sessions d))"

definition get_upcoming :: "string \<Rightarrow> db \<Rightarrow> session list" where
  \<comment> \<open>\<open>router.get('/upcoming')\<close>\<close>
  "get_upcoming uid d =
     sort_by date_time_asc (filter (\<lambda>s. userId s = uid \<and> completed s = False) (sessions d))"

definition when_key :: "session \<Rightarrow> string \<times> string" where
  \<comment> \<open>the pair \<open>(date, time)\<close> the listings are ordered by\<close>
  "when_key s = (date s, time s)"

section \<open>The client's view of a session (utils/mongoStorage.ts)\<close>

text \<open>
  Modelled from the spec: the client's \<open>Session\<close> type (\<open>types\<close>) is not among
  the sources; it has the fields of section 3 of the specification with an optional
  \<open>amount\<close>. The client holds the JSON form of a session. Its \<open>amount\<close> may be
  \<open>undefined\<close> (the client assigns it), \<open>null\<close> (what the server stores for no
  amount) or a number. \<open>JSON.stringify\<close> omits a key whose value is \<open>undefined\<close>,
  so the server then reads \<open>undefined\<close> for it. \<open>transformSession\<close> below is the
  server's function of that name followed by the JSON encoding of the response.
\<close>

record client_session =
  c_id :: string
  c_userId :: string
  c_patientId :: string
  c_patientName :: string
  c_date :: string
  c_time :: string
  c_notes :: string
  c_completed :: bool
  c_amount :: "rat js"

definition transformSession :: "session \<Rightarrow> client_session" where
  "transformSession s =
     \<lparr> c_id = s_id s, c_userId = userId s, c_patientId = patientId s,
       c_patientName = patientName s, c_date = date s, c_time = time s,
       c_notes = s_notes s, c_completed = completed s,
       c_amount = (case amount s of None \<Rightarrow> Null | Some n \<Rightarrow> Val n) \<rparr>"

definition stringify :: "client_session \<Rightarrow> session_body" where
  \<comment> \<open>\<open>JSON.stringify(session)\<close> as the routes destructure it\<close>
  "stringify c =
     \<lparr> b_patientId = Some (c_patientId c), b_patientName = Some (c_patientName c),
       b_date = Some (c_date c), b_time = Some (c_time c), b_notes = Some (c_notes c),
       b_completed = Some (c_completed c), b_amount = c_amount c \<rparr>"

definition apiCall :: "bool \<Rightarrow> (http_error + 'a) \<Rightarrow> http_error + 'a" where
  \<comment> \<open>\<open>apiCall\<close> throws when the request fails or the response is not ok\<close>
  "apiCall online resp = (if online then resp else Inl InternalError)"

definition updateSession ::
  "bool \<Rightarrow> string \<Rightarrow> client_session \<Rightarrow> db \<Rightarrow> http_error + db" where
  "updateSession online uid c d =
     (case apiCall online (put_session uid (c_id c) (stringify c) d) of
        Inl e \<Rightarrow> Inl e
      | Inr (_, d') \<Rightarrow> Inr d')"

definition saveSession ::
  "bool \<Rightarrow> string \<Rightarrow> string \<Rightarrow> client_session \<Rightarrow> db \<Rightarrow> http_error + (client_session \<times> db)"
  where
  "saveSession online uid oid c d =
     (case apiCall online (post_session uid oid (stringify c) d) of
        Inl e \<Rightarrow> Inl e
      | Inr (s, d') \<Rightarrow> Inr (transformSession s, d'))"

section \<open>Completion toggle of the upcoming screen (app/(tabs)/upcoming.tsx)\<close>

datatype ui_outcome = Alert_CannotComplete | Alert_Error | Reloaded

definition handleToggleComplete ::
  "bool \<Rightarrow> string \<Rightarrow> client_session \<Rightarrow> bool \<Rightarrow> db \<Rightarrow> ui_outcome \<times> db" where
  "handleToggleComplete online uid session cmpl d =
     (if cmpl then (Alert_CannotComplete, d)
      else case updateSession online uid
                  (session\<lparr>c_completed := cmpl, c_amount := Undefined\<rparr>) d of
             Inl _ \<Rightarrow> (Alert_Error, d)
           | Inr d' \<Rightarrow> (Reloaded, d'))"

section \<open>JavaScript dates\<close>

text \<open>
  A \<open>Date\<close> is its time value, the milliseconds since 1970-01-01T00:00Z, or
  \<open>None\<close> for Invalid Date. Local fields are read in a time zone \<open>tz\<close> minutes east
  of UTC (a fixed offset; daylight saving is not modelled). The two conversions between
  a day number and a proleptic Gregorian date are the usual era-based ones.
\<close>

definition days_from_civil :: "int \<Rightarrow> int \<Rightarrow> int \<Rightarrow> int" where
  "days_from_civil y m d =
     (let y' = (if m \<le> 2 then y - 1 else y);
          era = y' div 400;
          yoe = y' - era * 400;
          doy = (153 * (if 2 < m then m - 3 else m + 9) + 2) div 5 + d - 1;
          doe = yoe * 365 + yoe div 4 - yoe div 100 + doy
      in era * 146097 + doe - 719468)"

definition civil_from_days :: "int \<Rightarrow> int \<times> int \<times> int" where
  "civil_from_days z =
     (let z' = z + 719468;
          era = z' div 146097;
          doe = z' - era * 146097;
          yoe = (doe - doe div 1460 + doe div 36524 - doe div 146096) div 365;
          doy = doe - (365 * yoe + yoe div 4 - yoe div 100);
          mp = (5 * doy + 2) div 153;
          d = doy - (153 * mp + 2) div 5 + 1;
          m = (if mp < 10 then mp + 3 else mp - 9);
          y = yoe + era * 400
      in (if m \<le> 2 then y + 1 else y, m, d))"

definition local_ms :: "int \<Rightarrow> int \<Rightarrow> int" where
  "local_ms tz t = t + tz * 60000"

definition getFullYear :: "int \<Rightarrow> int \<Rightarrow> int" where
  "getFullYear tz t = (case civil_from_days (local_ms tz t div 86400000) of (y, m, d) \<Rightarrow> y)"

definition getMonth :: "int \<Rightarrow> int \<Rightarrow> int" where
  \<comment> \<open>zero-based, as in JavaScript\<close>
  "getMonth tz t = (case civil_from_days (local_ms tz t div 86400000) of (y, m, d) \<Rightarrow> m - 1)"

definition getDate :: "int \<Rightarrow> int \<Rightarrow> int" where
  "getDate tz t = (case civil_from_days (local_ms tz t div 86400000) of (y, m, d) \<Rightarrow> d)"

definition getHours :: "int \<Rightarrow> int \<Rightarrow> int" where
  "getHours tz t = (local_ms tz t mod 86400000) div 3600000"

definition getMinutes :: "int \<Rightarrow> int \<Rightarrow> int" where
  "getMinutes tz t = (local_ms tz t mod 3600000) div 60000"

fun string_of_nat :: "nat \<Rightarrow> string" where
  "string_of_nat n =
     (if n < 10 then [char_of (48 + n)]
      else string_of_nat (n div 10) @ [char_of (48 + n mod 10)])"

declare string_of_nat.simps [simp del]

definition String_of :: "int \<Rightarrow> string" where
  \<comment> \<open>\<open>String(n)\<close> and \<open>`${n}`\<close> for an integer\<close>
  "String_of n = (if n < 0 then CHR ''-'' # string_of_nat (nat (- n)) else string_of_nat (nat n))"

definition padStart :: "nat \<Rightarrow> char \<Rightarrow> string \<Rightarrow> string" where
  "padStart n c s = replicate (n - length s) c @ s"

definition is_digit :: "char \<Rightarrow> bool" where
  "is_digit c \<longleftrightarrow> CHR ''0'' \<le> c \<and> c \<le> CHR ''9''"

definition digits_val :: "string \<Rightarrow> int option" where
  "digits_val s =
     (if s \<noteq> [] \<and> list_all is_digit s
      then Some (foldl (\<lambda>a c. 10 * a + (int (of_char c) - 48)) 0 s) else None)"

definition days_in_month :: "int \<Rightarrow> int \<Rightarrow> int" where
  "days_in_month y m =
     (if m = 2 then (if y mod 4 = 0 \<and> (y mod 100 \<noteq> 0 \<or> y mod 400 = 0) then 29 else 28)
      else if m = 4 \<or> m = 6 \<or> m = 9 \<or> m = 11 then 30 else 31)"

definition parse_date_part :: "string \<Rightarrow> int option" where
  \<comment> \<open>the day number of a string \<open>YYYY-MM-DD\<close>\<close>
  "parse_date_part s =
     (if length s = 10 \<and> s ! 4 = CHR ''-'' \<and> s ! 7 = CHR ''-'' then
        (case (digits_val (take 4 s), digits_val (take 2 (drop 5 s)), digits_val (drop 8 s)) of
           (Some y, Some m, Some d) \<Rightarrow>
             if 1 \<le> m \<and> m \<le> 12 \<and> 1 \<le> d \<and> d \<le> days_in_month y m
             then Some (days_from_civil y m d) else None
         | _ \<Rightarrow> None)
      else None)"

definition parse_time_part :: "string \<Rightarrow> int option" where
  \<comment> \<open>the milliseconds into the day of a string \<open>HH:MM\<close>\<close>
  "parse_time_part s =
     (if length s = 5 \<and> s ! 2 = CHR '':'' then
        (case (digits_val (take 2 s), digits_val (drop 3 s)) of
           (Some h, Some m) \<Rightarrow>
             if h \<le> 23 \<and> m \<le> 59 then Some (h * 3600000 + m * 60000) else None
         | _ \<Rightarrow> None)
      else None)"

definition new_Date :: "int \<Rightarrow> string \<Rightarrow> int option" where
  \<comment> \<open>\<open>new Date(s)\<close>: a date-only ISO string is UTC midnight, a date-time string
      without offset is local time. Other shapes are engine-dependent and are Invalid
      Date here.\<close>
  "new_Date tz s =
     (if length s = 10 then map_option (\<lambda>n. n * 86400000) (parse_date_part s)
      else if length s = 16 \<and> s ! 10 = CHR ''T'' then
        (case (parse_date_part (take 10 s), parse_time_part (drop 11 s)) of
           (Some n, Some ms) \<Rightarrow> Some (n * 86400000 + ms - tz * 60000)
         | _ \<Rightarrow> None)
      else None)"

definition toISOString_date :: "int \<Rightarrow> string" where
  \<comment> \<open>\<open>d.toISOString().split('T')[0]\<close>: the UTC calendar date\<close>
  "toISOString_date t =
     (case civil_from_days (t div 86400000) of
        (y, m, d) \<Rightarrow>
          (if 0 \<le> y \<and> y \<le> 9999 then padStart 4 CHR ''0'' (String_of y)
           else (if y < 0 then CHR ''-'' else CHR ''+'') # padStart 6 CHR ''0'' (String_of \<bar>y\<bar>))
          @ ''-'' @ padStart 2 CHR ''0'' (String_of m)
          @ ''-'' @ padStart 2 CHR ''0'' (String_of d))"

section \<open>Date and time formatting of the session form (components/SessionForm.tsx)\<close>

definition formatDateForStorage :: "int \<Rightarrow> int option \<Rightarrow> string" where
  "formatDateForStorage tz dateObj =
     (case dateObj of
        None \<Rightarrow> ''NaN-NaN-NaN''
      | Some t \<Rightarrow>
          (let year = getFullYear tz t;
               month = padStart 2 CHR ''0'' (String_of (getMonth tz t + 1));
               day = padStart 2 CHR ''0'' (String_of (getDate tz t))
           in String_of year @ ''-'' @ month @ ''-'' @ day))"

definition formatTimeForStorage :: "int \<Rightarrow> int option \<Rightarrow> string" where
  \<comment> \<open>\<open>toLocaleTimeString([], {hour: '2-digit', minute: '2-digit', hour12: false})\<close>
      in a locale that prints \<open>HH:MM\<close>\<close>
  "formatTimeForStorage tz timeDate =
     (case timeDate of
        None \<Rightarrow> ''Invalid Date''
      | Some t \<Rightarrow> padStart 2 CHR ''0'' (String_of (getHours tz t)) @ '':''
                  @ padStart 2 CHR ''0'' (String_of (getMinutes tz t)))"

section \<open>Reading today's sessions (utils/mongoStorage.ts)\<close>

definition getTodaySessions :: "bool \<Rightarrow> int \<Rightarrow> string \<Rightarrow> db \<Rightarrow> session list" where
  "getTodaySessions online now uid d =
     (case apiCall online (Inr (get_sessions uid no_filter d)) of
        Inl _ \<Rightarrow> []
      | Inr response_sessions \<Rightarrow>
          (let today = toISOString_date now
           in filter (\<lambda>session. date session = today) response_sessions))"

section \<open>Reminders (utils/notifications.ts)\<close>

text \<open>
  The notification collaborator (expo-notifications) is an external service. It is
  modelled as the list of pending requests with their identifiers, a counter for fresh
  identifiers, and a flag saying that its calls currently throw. An identifier is a
  number here, an opaque string in the source. \<open>setHours(getHours() - 1)\<close> moves a
  valid date back by one hour, 3600000 milliseconds, and leaves Invalid Date as it is.
\<close>

datatype platform = Web | Ios | Android

record notification_request =
  n_title :: string
  n_body :: string
  n_data_sessionId :: string
  n_trigger :: "int option"

record notifier =
  scheduled :: "(nat \<times> notification_request) list"
  fresh :: nat
  failing :: bool

definition scheduleNotificationAsync ::
  "notification_request \<Rightarrow> notifier \<Rightarrow> (nat \<times> notifier) option" where
  "scheduleNotificationAsync req st =
     (if failing st then None
      else Some (fresh st, st\<lparr>scheduled := scheduled st @ [(fresh st, req)],
                              fresh := fresh st + 1\<rparr>))"

definition cancelScheduledNotificationAsync :: "nat \<Rightarrow> notifier \<Rightarrow> notifier option" where
  "cancelScheduledNotificationAsync h st =
     (if failing st then None
      else Some (st\<lparr>scheduled := filter (\<lambda>r. fst r \<noteq> h) (scheduled st)\<rparr>))"

record env =
  e_platform :: platform
  e_tz :: int
  e_now :: int
  e_online :: bool

definition scheduleSessionNotification ::
  "env \<Rightarrow> client_session \<Rightarrow> notifier \<Rightarrow> nat option \<times> notifier" where
  "scheduleSessionNotification e session st =
     (if e_platform e = Web then (None, st)
      else
        (let sessionDate = new_Date (e_tz e) (c_date session @ ''T'' @ c_time session);
             notificationDate = map_option (\<lambda>t. t - 3600000) sessionDate
         in if (case notificationDate of None \<Rightarrow> False | Some t \<Rightarrow> t \<le> e_now e)
            then (None, st)
            else (case scheduleNotificationAsync
                         \<lparr> n_title = ''Upcoming Session Reminder'',
                           n_body = ''You have a session with '' @ c_patientName session
                                    @ '' at '' @ c_time session,
                           n_data_sessionId = c_id session,
                           n_trigger = notificationDate \<rparr> st of
                    None \<Rightarrow> (None, st)
                  | Some (notificationId, st') \<Rightarrow> (Some notificationId, st'))))"

definition cancelNotification :: "env \<Rightarrow> nat \<Rightarrow> notifier \<Rightarrow> notifier" where
  "cancelNotification e notificationId st =
     (if e_platform e = Web then st
      else (case cancelScheduledNotificationAsync notificationId st of
              None \<Rightarrow> st
            | Some st' \<Rightarrow> st'))"

section \<open>Submitting the session form (components/SessionForm.tsx)\<close>

text \<open>
  The form state: the selected patient id, the two \<open>Date\<close> values of the pickers, the
  notes, the amount text and the patients loaded by the client. The amount text is
  kept as what the form sends for it: \<open>Undefined\<close> when the trimmed text is empty,
  otherwise \<open>parseFloat\<close> of it, \<open>Val n\<close>, or \<open>Null\<close> when that is NaN
  (\<open>JSON.stringify\<close> writes NaN as \<open>null\<close>).
\<close>

record form =
  f_patientId :: string
  f_date :: "int option"
  f_time :: "int option"
  f_notes :: string
  f_amount :: "rat js"
  f_patients :: "patient list"

datatype submit_outcome = Form_Invalid | Saved client_session | Alert_SaveFailed

definition initialFormState ::
  "int \<Rightarrow> int \<Rightarrow> string \<Rightarrow> patient list \<Rightarrow> client_session option \<Rightarrow> form option" where
  \<comment> \<open>the \<open>useState\<close> initialisers of the form followed by \<open>loadPatients\<close>; \<open>None\<close>
      when an initialiser throws: \<open>existingSession.amount.toString()\<close> on \<open>null\<close>\<close>
  "initialFormState tz now preselectedPatientId patientsList existingSession =
     (let pick = (\<lambda>patientId. case patientsList of
                     [p] \<Rightarrow> if patientId = [] then p_id p else patientId
                   | _ \<Rightarrow> patientId)
      in case existingSession of
           None \<Rightarrow>
             Some \<lparr> f_patientId = pick preselectedPatientId, f_date = Some now,
                    f_time = Some now, f_notes = [], f_amount = Undefined,
                    f_patients = patientsList \<rparr>
         | Some ex \<Rightarrow>
             (case c_amount ex of
                Null \<Rightarrow> None
              | a \<Rightarrow>
                  Some \<lparr> f_patientId = pick (if c_patientId ex \<noteq> [] then c_patientId ex
                                              else preselectedPatientId),
                         f_date = new_Date tz (c_date ex),
                         f_time = new_Date tz (''2000-01-01T'' @ c_time ex),
                         f_notes = c_notes ex, f_amount = a,
                         f_patients = patientsList \<rparr>))"

definition getPatientNameById :: "patient list \<Rightarrow> string \<Rightarrow> string" where
  "getPatientNameById ps i = (case List.find (\<lambda>p. p_id p = i) ps of None \<Rightarrow> [] | Some p \<Rightarrow> p_name p)"

definition handleSubmit ::
  "env \<Rightarrow> string \<Rightarrow> string \<Rightarrow> form \<Rightarrow> client_session option \<Rightarrow> db \<times> notifier
     \<Rightarrow> submit_outcome \<times> db \<times> notifier" where
  "handleSubmit e uid oid f existingSession w =
     (case w of (d, st) \<Rightarrow>
      if f_patientId f = [] then (Form_Invalid, d, st)
      else
        (let patientName = getPatientNameById (f_patients f) (f_patientId f);
             formattedDate = formatDateForStorage (e_tz e) (f_date f);
             formattedTime = formatTimeForStorage (e_tz e) (f_time f)
         in case existingSession of
              Some ex \<Rightarrow>
                (let updatedSessionData =
                       ex\<lparr>c_patientId := f_patientId f, c_patientName := patientName,
                          c_date := formattedDate, c_time := formattedTime,
                          c_notes := f_notes f, c_amount := f_amount f\<rparr>
                 in case updateSession (e_online e) uid updatedSessionData d of
                      Inl _ \<Rightarrow> (Alert_SaveFailed, d, st)
                    | Inr d' \<Rightarrow>
                        (Saved updatedSessionData, d',
                         snd (scheduleSessionNotification e updatedSessionData st)))
            | None \<Rightarrow>
                (let sessionData =
                       \<lparr> c_id = [], c_userId = [], c_patientId = f_patientId f,
                         c_patientName = patientName, c_date = formattedDate,
                         c_time = formattedTime, c_notes = f_notes f,
                         c_completed = False, c_amount = f_amount f \<rparr>
                 in case saveSession (e_online e) uid oid sessionData d of
                      Inl _ \<Rightarrow> (Alert_SaveFailed, d, st)
                    | Inr (newSession, d') \<Rightarrow>
                        (Saved newSession, d',
                         snd (scheduleSessionNotification e newSession st)))))"

section \<open>Example data\<close>

text \<open>
  One practitioner \<open>u1\<close> with the patient Asha. The instant
  \<open>1741600800000\<close> is 2025-03-10T10:00Z.
\<close>

definition asha :: patient where
  "asha = \<lparr> p_id = ''p1'', p_userId = ''u1'', p_name = ''Asha'', p_contactNumber = ''555'' \<rparr>"

definition paid_session :: session where
  "paid_session =
     \<lparr> s_id = ''s1'', userId = ''u1'', patientId = ''p1'', patientName = ''Asha'',
       date = ''2025-03-10'', time = ''09:00'', s_notes = ''knee'', completed = True,
       amount = Some 500 \<rparr>"

definition open_session :: session where
  "open_session =
     \<lparr> s_id = ''s2'', userId = ''u1'', patientId = ''p1'', patientName = ''Asha'',
       date = ''2025-03-10'', time = ''14:00'', s_notes = [], completed = False,
       amount = None \<rparr>"

definition tomorrow_session :: session where
  "tomorrow_session =
     \<lparr> s_id = ''s3'', userId = ''u1'', patientId = ''p1'', patientName = ''Asha'',
       date = ''2025-03-11'', time = ''08:30'', s_notes = [], completed = False,
       amount = None \<rparr>"

definition clinic :: db where
  "clinic = \<lparr> patients = [asha], sessions = [paid_session, open_session, tomorrow_session] \<rparr>"

definition phone :: env where
  "phone = \<lparr> e_platform = Android, e_tz = 330, e_now = 1741600800000, e_online = True \<rparr>"

definition idle :: notifier where
  "idle = \<lparr> scheduled = [], fresh = 0, failing = False \<rparr>"

text \<open>
  The session form filled in at that instant for 21:00 the same evening. It is
  submitted as a new session with the amount 500; the stored session is then opened in
  the form again and submitted with the time moved to 21:30.
\<close>

definition evening_form :: form where
  "evening_form =
     \<lparr> f_patientId = ''p1'', f_date = Some 1741600800000, f_time = Some 1741620600000,
       f_notes = [], f_amount = Undefined, f_patients = [asha] \<rparr>"

definition evening_session :: session where
  "evening_session =
     \<lparr> s_id = ''s7'', userId = ''u1'', patientId = ''p1'', patientName = ''Asha'',
       date = ''2025-03-10'', time = ''21:00'', s_notes = [], completed = False,
       amount = None \<rparr>"

definition paid_evening :: client_session where
  "paid_evening = transformSession (evening_session\<lparr>amount := Some 500\<rparr>)"

definition after_create :: "submit_outcome \<times> db \<times> notifier" where
  "after_create =
     handleSubmit phone ''u1'' ''s7'' (evening_form\<lparr>f_amount := Val 500\<rparr>) None (clinic, idle)"

definition after_update :: "submit_outcome \<times> db \<times> notifier" where
  "after_update =
     (case initialFormState (e_tz phone) (e_now phone) [] [asha] (Some paid_evening) of
        None \<Rightarrow> after_create
      | Some f \<Rightarrow>
          handleSubmit phone ''u1'' ''s8'' (f\<lparr>f_time := Some 1741622400000\<rparr>)
            (Some paid_evening) (snd after_create))"

lemmas fixtures = asha_def paid_session_def open_session_def tomorrow_session_def clinic_def
  phone_def idle_def


section \<open>Facts about the collection primitives\<close>

lemma findOne_Some_holds: "findOne P xs = Some x \<Longrightarrow> P x \<and> x \<in> set xs"
  by (auto simp: findOne_def find_Some_iff)

lemma findOne_update_first:
  "findOne P xs = Some x \<Longrightarrow> P (f x) \<Longrightarrow> findOne P (update_first P f xs) = Some (f x)"
  by (induction xs) (auto simp: findOne_def split: if_splits)

lemma findOne_remove_first_distinct:
  "distinct (map k xs) \<Longrightarrow> findOne (\<lambda>x. k x = i \<and> Q x) (remove_first (\<lambda>x. k x = i \<and> Q x) xs) = None"
proof (induction xs)
  case Nil
  then show ?case by (simp add: findOne_def)
next
  case (Cons a xs)
  show ?case
  proof (cases "k a = i \<and> Q a")
    case True
    with Cons.prems have "i \<notin> k ` set xs" by simp
    then have "\<forall>x\<in>set xs. k x \<noteq> i" by blast
    then have "List.find (\<lambda>x. k x = i \<and> Q x) xs = None"
      by (auto simp: find_None_iff)
    with True show ?thesis by (simp add: findOne_def)
  next
    case False
    with Cons show ?thesis by (auto simp: findOne_def)
  qed
qed

section \<open>Update: which fields a patch touches\<close>

lemma truthy_pick:
  "(if truthy v then str_or v [] else x) =
     (case v of None \<Rightarrow> x | Some w \<Rightarrow> if w = [] then x else w)"
  by (simp add: truthy_def str_or_def split: option.splits)

lemma apply_patch_ids:
  "s_id (apply_patch body s) = s_id s"
  "userId (apply_patch body s) = userId s"
  by (simp_all add: apply_patch_def Let_def split: option.splits js.splits)

lemma apply_patch_strings:
  "patientId (apply_patch body s) =
     (if truthy (b_patientId body) then str_or (b_patientId body) [] else patientId s)"
  "patientName (apply_patch body s) =
     (if truthy (b_patientName body) then str_or (b_patientName body) [] else patientName s)"
  "date (apply_patch body s) = (if truthy (b_date body) then str_or (b_date body) [] else date s)"
  "time (apply_patch body s) = (if truthy (b_time body) then str_or (b_time body) [] else time s)"
  by (simp_all add: apply_patch_def Let_def split: option.splits js.splits)

lemma apply_patch_others:
  "s_notes (apply_patch body s) = (case b_notes body of None \<Rightarrow> s_notes s | Some n \<Rightarrow> n)"
  "completed (apply_patch body s) =
     (case b_completed body of None \<Rightarrow> completed s | Some c \<Rightarrow> c)"
  "amount (apply_patch body s) =
     (case b_amount body of Undefined \<Rightarrow> amount s | Null \<Rightarrow> None | Val a \<Rightarrow> Some a)"
  by (simp_all add: apply_patch_def Let_def split: option.splits js.splits)

lemmas apply_patch_fields =
  apply_patch_ids apply_patch_strings [unfolded truthy_pick] apply_patch_others

text \<open>
  C10. In the update route, \<open>patientId\<close>, \<open>patientName\<close>, \<open>date\<close> and \<open>time\<close> are
  overwritten only by a truthy (present and non-empty) patch value, so a non-empty
  stored value is never blanked; \<open>notes\<close>, \<open>completed\<close> and \<open>amount\<close> are
  overwritten whenever the patch value is not \<open>undefined\<close>, so \<open>notes\<close> can become
  the empty string and \<open>completed\<close> false; identifier, owner and every field the patch
  does not name keep their values, and the patched document is the one stored.
\<close>

theorem put_session_patch_frame:
  assumes found: "findOne (\<lambda>x. s_id x = sid \<and> userId x = uid) (sessions d) = Some s"
  shows "\<exists>s' d'. put_session uid sid body d = Inr (s', d')
     \<and> findOne (\<lambda>x. s_id x = sid \<and> userId x = uid) (sessions d') = Some s'
     \<and> patients d' = patients d
     \<and> s_id s' = s_id s \<and> userId s' = userId s
     \<and> patientId s' =
         (case b_patientId body of None \<Rightarrow> patientId s
          | Some v \<Rightarrow> if v = [] then patientId s else v)
     \<and> patientName s' =
         (case b_patientName body of None \<Rightarrow> patientName s
          | Some v \<Rightarrow> if v = [] then patientName s else v)
     \<and> date s' = (case b_date body of None \<Rightarrow> date s | Some v \<Rightarrow> if v = [] then date s else v)
     \<and> time s' = (case b_time body of None \<Rightarrow> time s | Some v \<Rightarrow> if v = [] then time s else v)
     \<and> (patientId s \<noteq> [] \<longrightarrow> patientId s' \<noteq> [])
     \<and> (patientName s \<noteq> [] \<longrightarrow> patientName s' \<noteq> [])
     \<and> (date s \<noteq> [] \<longrightarrow> date s' \<noteq> [])
     \<and> (time s \<noteq> [] \<longrightarrow> time s' \<noteq> [])
     \<and> s_notes s' = (case b_notes body of None \<Rightarrow> s_notes s | Some v \<Rightarrow> v)
     \<and> completed s' = (case b_completed body of None \<Rightarrow> completed s | Some v \<Rightarrow> v)
     \<and> amount s' = (case b_amount body of Undefined \<Rightarrow> amount s | Null \<Rightarrow> None
                     | Val a \<Rightarrow> Some a)"
proof -
  let ?P = "\<lambda>x. s_id x = sid \<and> userId x = uid"
  let ?s' = "apply_patch body s"
  let ?d' = "d\<lparr>sessions := update_first ?P (apply_patch body) (sessions d)\<rparr>"
  have P: "?P s" using findOne_Some_holds [OF found] by simp
  have put: "put_session uid sid body d = Inr (?s', ?d')"
    using found by (simp add: put_session_def)
  have "?P ?s'" using P by (simp add: apply_patch_fields)
  then have stored: "findOne ?P (sessions ?d') = Some ?s'"
    using findOne_update_first [OF found, of "apply_patch body"] by simp
  have blank: "patientId s \<noteq> [] \<longrightarrow> patientId ?s' \<noteq> []"
    "patientName s \<noteq> [] \<longrightarrow> patientName ?s' \<noteq> []"
    "date s \<noteq> [] \<longrightarrow> date ?s' \<noteq> []"
    "time s \<noteq> [] \<longrightarrow> time ?s' \<noteq> []"
    by (simp_all add: apply_patch_fields split: option.splits)
  show ?thesis
    apply (rule exI [of _ ?s'], rule exI [of _ ?d'])
    using put stored blank by (simp add: apply_patch_fields)
qed



theorem put_session_patch_frame_witness:
  "\<exists>s' d'. put_session ''u1'' ''s1''
       \<lparr> b_patientId = None, b_patientName = Some [], b_date = Some [],
         b_time = Some ''10:15'', b_notes = Some [], b_completed = Some False,
         b_amount = Undefined \<rparr> clinic = Inr (s', d')
     \<and> patientName s' = ''Asha'' \<and> date s' = ''2025-03-10'' \<and> time s' = ''10:15''
     \<and> s_notes s' = [] \<and> completed s' = False \<and> amount s' = Some 500"
proof -
  have found: "findOne (\<lambda>x. s_id x = ''s1'' \<and> userId x = ''u1'') (sessions clinic)
                 = Some paid_session"
    by (simp add: fixtures findOne_def)
  show ?thesis
    using put_session_patch_frame [OF found,
        of "\<lparr> b_patientId = None, b_patientName = Some [], b_date = Some [],
              b_time = Some ''10:15'', b_notes = Some [], b_completed = Some False,
              b_amount = Undefined \<rparr>"]
    by (auto simp: paid_session_def)
qed

section \<open>Completion and amount\<close>




text \<open>
  The upcoming screen reopens a session with
  \<open>{...session, completed, amount: undefined}\<close>. The key is dropped from the JSON body
  and the update route leaves the stored amount alone: reopening the paid session
  stores \<open>completed = false\<close> with the amount 500 still there.
\<close>

theorem reopen_keeps_amount:
  "handleToggleComplete True ''u1'' (transformSession paid_session) False clinic
     = (Reloaded,
        clinic\<lparr>sessions := [paid_session\<lparr>completed := False\<rparr>, open_session,
                             tomorrow_session]\<rparr>)
   \<and> completed (paid_session\<lparr>completed := False\<rparr>) = False
   \<and> amount (paid_session\<lparr>completed := False\<rparr>) = Some 500"
  by (simp add: fixtures handleToggleComplete_def updateSession_def apiCall_def put_session_def
       findOne_def stringify_def transformSession_def apply_patch_def truthy_def str_or_def)

section \<open>Deleting a patient\<close>

lemma delete_patient_sessions:
  "delete_patient uid pid d = Inr d' \<Longrightarrow> sessions d' = sessions d"
  by (auto simp: delete_patient_def split: option.splits)

lemma deleted_patient_not_found:
  assumes "distinct (map p_id (patients d))" and "delete_patient uid pid d = Inr d'"
  shows "get_patient_sessions uid pid d' = Inl NotFound"
proof -
  from assms(2) have "patients d' =
      remove_first (\<lambda>p. p_id p = pid \<and> p_userId p = uid) (patients d)"
    by (auto simp: delete_patient_def split: option.splits)
  then show ?thesis
    using findOne_remove_first_distinct [OF assms(1), of pid "\<lambda>p. p_userId p = uid"]
    by (simp add: get_patient_sessions_def)
qed

text \<open>
  C2. The claim: deleting a patient removes the sessions that reference it. The delete
  route removes the patient document only. After Asha is deleted, her three sessions
  are still returned by the session listing, while the per-patient listing answers
  404.
\<close>

theorem delete_patient_keeps_sessions:
  "delete_patient ''u1'' ''p1'' clinic = Inr (clinic\<lparr>patients := []\<rparr>)
   \<and> sessions (clinic\<lparr>patients := []\<rparr>) = [paid_session, open_session, tomorrow_session]
   \<and> get_upcoming ''u1'' (clinic\<lparr>patients := []\<rparr>) = [open_session, tomorrow_session]
   \<and> get_patient_sessions ''u1'' ''p1'' (clinic\<lparr>patients := []\<rparr>) = Inl NotFound"
  by (simp add: fixtures delete_patient_def findOne_def get_upcoming_def sort_by_def
       date_time_asc_def get_patient_sessions_def)

section \<open>Completing a session ahead of its date\<close>

text \<open>
  C3, as stated, fails on the update route: it has no date check. With today
  2025-03-10, the session dated 2025-03-11 is completed by an update.
\<close>

theorem complete_future_session_accepted:
  "toISOString_date (e_now phone) = ''2025-03-10''
   \<and> date tomorrow_session = ''2025-03-11''
   \<and> put_session ''u1'' ''s3''
        (stringify ((transformSession tomorrow_session)\<lparr>c_completed := True\<rparr>)) clinic
      = Inr (tomorrow_session\<lparr>completed := True\<rparr>,
             clinic\<lparr>sessions := [paid_session, open_session,
                                  tomorrow_session\<lparr>completed := True\<rparr>]\<rparr>)"
proof -
  have "toISOString_date (e_now phone) = ''2025-03-10''"
    by code_simp
  moreover have "put_session ''u1'' ''s3''
        (stringify ((transformSession tomorrow_session)\<lparr>c_completed := True\<rparr>)) clinic
      = Inr (tomorrow_session\<lparr>completed := True\<rparr>,
             clinic\<lparr>sessions := [paid_session, open_session,
                                  tomorrow_session\<lparr>completed := True\<rparr>]\<rparr>)"
    by (simp add: fixtures put_session_def findOne_def stringify_def transformSession_def
         apply_patch_def truthy_def str_or_def)
  ultimately show ?thesis by (simp add: tomorrow_session_def)
qed

text \<open>
  C3, amended. The guard is in the upcoming screen and does not look at the date: a
  request to mark any session complete there is answered with the "Cannot Complete"
  alert, no update is sent, and the stored state is unchanged.
\<close>

theorem toggle_complete_rejected:
  "handleToggleComplete online uid session True d = (Alert_CannotComplete, d)"
  by (simp add: handleToggleComplete_def)

section \<open>Validation of date and time\<close>





section \<open>Sorting\<close>

lemma mset_insort_by: "mset (insort_by le x xs) = add_mset x (mset xs)"
  by (induction xs) auto

lemma mset_sort_by: "mset (sort_by le xs) = mset xs"
  by (induction xs) (auto simp: sort_by_def mset_insort_by)

lemma set_insort_by: "set (insort_by le x xs) = insert x (set xs)"
  by (induction xs) auto

lemma set_sort_by: "set (sort_by le xs) = set xs"
  using mset_sort_by [of le xs] by (metis set_mset_mset)

lemma sorted_insort_by:
  assumes total: "\<And>a b. le a b \<or> le b a"
    and trans: "\<And>a b c. le a b \<Longrightarrow> le b c \<Longrightarrow> le a c"
  shows "sorted_wrt le xs \<Longrightarrow> sorted_wrt le (insort_by le x xs)"
proof (induction xs)
  case Nil
  then show ?case by simp
next
  case (Cons y ys)
  show ?case
  proof (cases "le x y")
    case True
    with Cons.prems trans show ?thesis by auto
  next
    case False
    with total have "le y x" by blast
    with Cons False show ?thesis by (auto simp: set_insort_by)
  qed
qed

lemma sorted_sort_by:
  assumes total: "\<And>a b. le a b \<or> le b a"
    and trans: "\<And>a b c. le a b \<Longrightarrow> le b c \<Longrightarrow> le a c"
  shows "sorted_wrt le (sort_by le xs)"
proof (induction xs)
  case Nil
  then show ?case by (simp add: sort_by_def)
next
  case (Cons x xs)
  have "sort_by le (x # xs) = insort_by le x (sort_by le xs)"
    by (simp add: sort_by_def)
  with Cons sorted_insort_by [of le, OF total trans] show ?case by simp
qed

lemma date_time_asc_key: "date_time_asc a b \<longleftrightarrow> when_key a \<le> when_key b"
  by (auto simp: date_time_asc_def when_key_def)

lemma date_time_desc_key: "date_time_desc a b \<longleftrightarrow> when_key b \<le> when_key a"
  by (auto simp: date_time_desc_def when_key_def)

lemma sorted_asc: "sorted (map when_key (sort_by date_time_asc xs))"
proof -
  have "sorted_wrt date_time_asc (sort_by date_time_asc xs)"
    by (rule sorted_sort_by) (auto simp: date_time_asc_key)
  then show ?thesis
    by (simp add: sorted_map date_time_asc_key [abs_def])
qed

lemma sorted_wrt_desc: "sorted_wrt date_time_desc (sort_by date_time_desc xs)"
  by (rule sorted_sort_by) (auto simp: date_time_desc_key)

lemma sorted_desc: "sorted (rev (map when_key (sort_by date_time_desc xs)))"
proof -
  have "sorted_wrt (\<lambda>a b. when_key b \<le> when_key a) (sort_by date_time_desc xs)"
    using sorted_wrt_desc [of xs] by (simp add: date_time_desc_key [abs_def])
  then show ?thesis
    by (simp add: sorted_wrt_rev sorted_wrt_map flip: rev_map)
qed

lemma mset_filter_split:
  "mset (filter (\<lambda>s. U s \<and> \<not> C s) xs) + mset (filter (\<lambda>s. U s \<and> C s) xs) = mset (filter U xs)"
  by (induction xs) auto

section \<open>Upcoming and past\<close>

text \<open>
  C4. For every owner, the upcoming listing holds exactly the owner's sessions that are
  not completed, ascending by \<open>(date, time)\<close>; the past listing holds exactly the
  completed ones, descending by \<open>(date, time)\<close>; together they are all of the owner's
  sessions, each in exactly one of the two.
\<close>

theorem upcoming_past_partition:
  "mset (get_upcoming uid d) = {#s \<in># mset (sessions d). userId s = uid \<and> \<not> completed s#}
   \<and> sorted (map when_key (get_upcoming uid d))
   \<and> mset (get_past uid d) = {#s \<in># mset (sessions d). userId s = uid \<and> completed s#}
   \<and> sorted (rev (map when_key (get_past uid d)))
   \<and> mset (get_upcoming uid d) + mset (get_past uid d)
       = {#s \<in># mset (sessions d). userId s = uid#}
   \<and> set (get_upcoming uid d) \<inter> set (get_past uid d) = {}"
proof -
  have up: "mset (get_upcoming uid d)
      = mset (filter (\<lambda>s. userId s = uid \<and> \<not> completed s) (sessions d))"
    by (simp add: get_upcoming_def mset_sort_by)
  have past: "mset (get_past uid d)
      = mset (filter (\<lambda>s. userId s = uid \<and> completed s) (sessions d))"
    by (simp add: get_past_def mset_sort_by)
  have both: "mset (get_upcoming uid d) + mset (get_past uid d)
      = mset (filter (\<lambda>s. userId s = uid) (sessions d))"
    unfolding up past by (rule mset_filter_split)
  have disj: "set (get_upcoming uid d) \<inter> set (get_past uid d) = {}"
    by (auto simp: get_upcoming_def get_past_def set_sort_by)
  have s1: "sorted (map when_key (get_upcoming uid d))"
    by (simp add: get_upcoming_def sorted_asc)
  have s2: "sorted (rev (map when_key (get_past uid d)))"
    unfolding get_past_def by (rule sorted_desc)
  from up past both disj s1 s2 show ?thesis by simp
qed

theorem upcoming_past_partition_witness:
  "get_upcoming ''u1'' clinic = [open_session, tomorrow_session]
   \<and> get_past ''u1'' clinic = [paid_session]
   \<and> sorted (map when_key (get_upcoming ''u1'' clinic))
   \<and> sorted (rev (map when_key (get_past ''u1'' clinic)))
   \<and> set (get_upcoming ''u1'' clinic) \<inter> set (get_past ''u1'' clinic) = {}"
proof -
  have u: "get_upcoming ''u1'' clinic = [open_session, tomorrow_session]"
    by (simp add: fixtures get_upcoming_def sort_by_def date_time_asc_def)
  have p: "get_past ''u1'' clinic = [paid_session]"
    by (simp add: fixtures get_past_def sort_by_def)
  from u p upcoming_past_partition [of "''u1''" clinic] show ?thesis
    by blast
qed

section \<open>Today's sessions\<close>

lemma matches_no_filter: "matches_query uid no_filter s \<longleftrightarrow> userId s = uid"
  by (simp add: matches_query_def no_filter_def truthy_def)

lemma sorted_wrt_filter_same_date:
  assumes "sorted_wrt date_time_desc xs"
  shows "sorted_wrt (\<lambda>a b. time b \<le> time a) (filter (\<lambda>s. date s = t) xs)"
  using assms by (induction xs) (auto simp: date_time_desc_def)

text \<open>
  C5, as stated, fails on the order: the listing the client filters is sorted descending,
  so two sessions of today come back latest first. At 2025-03-10T10:00Z (15:30 on the
  phone, the same calendar day) the 14:00 session precedes the 09:00 one.
\<close>

theorem today_sessions_not_ascending:
  "toISOString_date (e_now phone) = ''2025-03-10''
   \<and> formatDateForStorage (e_tz phone) (Some (e_now phone)) = ''2025-03-10''
   \<and> getTodaySessions True (e_now phone) ''u1'' clinic = [open_session, paid_session]
   \<and> map time [open_session, paid_session] = [''14:00'', ''09:00'']
   \<and> \<not> sorted (map time (getTodaySessions True (e_now phone) ''u1'' clinic))"
proof -
  have t: "toISOString_date (e_now phone) = ''2025-03-10''"
    by code_simp
  have l: "formatDateForStorage (e_tz phone) (Some (e_now phone)) = ''2025-03-10''"
    by code_simp
  have g: "get_sessions ''u1'' no_filter clinic = [tomorrow_session, open_session, paid_session]"
    by (simp add: fixtures get_sessions_def matches_no_filter sort_by_def date_time_desc_def)
  have r: "getTodaySessions True (e_now phone) ''u1'' clinic = [open_session, paid_session]"
    by (simp add: getTodaySessions_def apiCall_def g t Let_def)
       (simp add: fixtures)
  show ?thesis
    unfolding r using t l by (simp add: open_session_def paid_session_def)
qed

text \<open>
  C5, amended. At an instant where the UTC calendar date and the device's local
  calendar date are the same, a successful fetch yields exactly those of the owner's
  sessions whose stored \<open>date\<close> equals today's canonical local date, in any completion
  state, in the order of the session listing, which among sessions of one date is
  descending by \<open>time\<close>. When nothing matches, and also when the fetch fails, the
  result is the empty sequence, never an error.
\<close>

theorem today_sessions_filter_desc:
  assumes same_day: "toISOString_date now = formatDateForStorage tz (Some now)"
  shows "mset (getTodaySessions True now uid d)
     = {#s \<in># mset (sessions d). userId s = uid \<and> date s = formatDateForStorage tz (Some now)#}
   \<and> sorted (rev (map time (getTodaySessions True now uid d)))
   \<and> getTodaySessions False now uid d = []
   \<and> ((\<forall>s \<in> set (sessions d). userId s = uid \<longrightarrow> date s \<noteq> formatDateForStorage tz (Some now))
        \<longrightarrow> getTodaySessions online now uid d = [])"
proof -
  let ?today = "formatDateForStorage tz (Some now)"
  have eq: "getTodaySessions True now uid d
      = filter (\<lambda>s. date s = ?today) (get_sessions uid no_filter d)"
    by (simp add: getTodaySessions_def apiCall_def Let_def same_day)
  have m: "mset (getTodaySessions True now uid d)
     = {#s \<in># mset (sessions d). userId s = uid \<and> date s = ?today#}"
    unfolding eq get_sessions_def
    by (simp add: mset_sort_by matches_no_filter [abs_def] filter_filter_mset)
  have "sorted_wrt (\<lambda>a b. time b \<le> time a) (getTodaySessions True now uid d)"
    unfolding eq get_sessions_def by (rule sorted_wrt_filter_same_date [OF sorted_wrt_desc])
  then have s: "sorted (rev (map time (getTodaySessions True now uid d)))"
    by (simp add: sorted_wrt_rev sorted_wrt_map flip: rev_map)
  have off: "getTodaySessions False now uid d = []"
    by (simp add: getTodaySessions_def apiCall_def)
  have none: "(\<forall>s \<in> set (sessions d). userId s = uid \<longrightarrow> date s \<noteq> ?today)
        \<longrightarrow> getTodaySessions online now uid d = []"
  proof
    assume a: "\<forall>s \<in> set (sessions d). userId s = uid \<longrightarrow> date s \<noteq> ?today"
    show "getTodaySessions online now uid d = []"
    proof (cases online)
      case True
      have "set (getTodaySessions True now uid d) = {}"
        using a unfolding eq get_sessions_def
        by (auto simp: set_sort_by matches_no_filter)
      with True show ?thesis by simp
    next
      case False
      with off show ?thesis by simp
    qed
  qed
  from m s off none show ?thesis by blast
qed

theorem today_sessions_filter_desc_witness:
  "toISOString_date (e_now phone) = formatDateForStorage (e_tz phone) (Some (e_now phone))
   \<and> formatDateForStorage (e_tz phone) (Some (e_now phone)) = ''2025-03-10''
   \<and> getTodaySessions True (e_now phone) ''u1'' clinic = [open_session, paid_session]
   \<and> mset [open_session, paid_session]
       = {#s \<in># mset (sessions clinic). userId s = ''u1'' \<and> date s = ''2025-03-10''#}
   \<and> sorted (rev (map time [open_session, paid_session]))
   \<and> getTodaySessions False (e_now phone) ''u1'' clinic = []"
proof -
  have t: "toISOString_date (e_now phone) = ''2025-03-10''"
    by code_simp
  have l: "formatDateForStorage (e_tz phone) (Some (e_now phone)) = ''2025-03-10''"
    by code_simp
  have h: "toISOString_date (e_now phone)
             = formatDateForStorage (e_tz phone) (Some (e_now phone))"
    by (simp only: t l)
  have g: "get_sessions ''u1'' no_filter clinic = [tomorrow_session, open_session, paid_session]"
    by (simp add: fixtures get_sessions_def matches_no_filter sort_by_def date_time_desc_def)
  have r: "getTodaySessions True (e_now phone) ''u1'' clinic = [open_session, paid_session]"
    by (simp add: getTodaySessions_def apiCall_def g t Let_def)
       (simp add: fixtures)
  note inst = today_sessions_filter_desc [OF h, of "''u1''" clinic True, unfolded r l]
  from inst have "mset [open_session, paid_session]
       = {#s \<in># mset (sessions clinic). userId s = ''u1'' \<and> date s = ''2025-03-10''#}"
    by blast
  moreover from inst have "sorted (rev (map time [open_session, paid_session]))"
    by blast
  moreover from inst have "getTodaySessions False (e_now phone) ''u1'' clinic = []"
    by blast
  ultimately show ?thesis using h l r by blast
qed

text \<open>
  The date string the client compares with is the UTC date. At 2025-03-10T20:00Z the
  phone, five and a half hours east, is already on 2025-03-11, the date the form would
  store for a session of that day; the client still selects the sessions of
  2025-03-10.
\<close>

theorem today_is_the_utc_date:
  "toISOString_date 1741636800000 = ''2025-03-10''
   \<and> formatDateForStorage (e_tz phone) (Some 1741636800000) = ''2025-03-11''
   \<and> getTodaySessions True 1741636800000 ''u1'' clinic = [open_session, paid_session]"
proof -
  have t: "toISOString_date 1741636800000 = ''2025-03-10''"
    by code_simp
  have l: "formatDateForStorage (e_tz phone) (Some 1741636800000) = ''2025-03-11''"
    by code_simp
  have g: "get_sessions ''u1'' no_filter clinic = [tomorrow_session, open_session, paid_session]"
    by (simp add: fixtures get_sessions_def matches_no_filter sort_by_def date_time_desc_def)
  have r: "getTodaySessions True 1741636800000 ''u1'' clinic = [open_session, paid_session]"
    by (simp add: getTodaySessions_def apiCall_def g t Let_def)
       (simp add: fixtures)
  from t l r show ?thesis by simp
qed

section \<open>Storage date round trip\<close>

text \<open>
  C8. The claim: formatting a local date, parsing the stored string and formatting again
  gives the same string. The form parses the stored string with \<open>new Date(date)\<close>,
  which reads a date-only string as UTC midnight, and formats with the local
  components. Five hours west of UTC, 2025-03-10 14:00 local is stored as
  \<open>2025-03-10\<close> and comes back as \<open>2025-03-09\<close>.
\<close>

theorem storage_date_shifts_west_of_utc:
  "formatDateForStorage (- 300) (Some 1741633200000) = ''2025-03-10''
   \<and> new_Date (- 300) ''2025-03-10'' = Some 1741564800000
   \<and> formatDateForStorage (- 300)
         (new_Date (- 300) (formatDateForStorage (- 300) (Some 1741633200000)))
       = ''2025-03-09''"
  by code_simp

section \<open>Scheduling a reminder\<close>

text \<open>
  C9, as stated, fails: null is also returned when the trigger is still ahead. On the
  web platform the reminder for tomorrow's 08:30 session, whose trigger 07:30 is after
  now, is not registered.
\<close>

theorem schedule_on_web_returns_null:
  "new_Date (e_tz phone) (c_date (transformSession tomorrow_session) @ ''T''
       @ c_time (transformSession tomorrow_session)) = Some 1741662000000
   \<and> e_now phone < 1741662000000 - 3600000
   \<and> scheduleSessionNotification (phone\<lparr>e_platform := Web\<rparr>)
        (transformSession tomorrow_session) idle = (None, idle)"
proof -
  have "new_Date (e_tz phone) (c_date (transformSession tomorrow_session) @ ''T''
       @ c_time (transformSession tomorrow_session)) = Some 1741662000000"
    by code_simp
  moreover have "e_now phone < 1741662000000 - 3600000"
    by (simp add: phone_def)
  moreover have "scheduleSessionNotification (phone\<lparr>e_platform := Web\<rparr>)
        (transformSession tomorrow_session) idle = (None, idle)"
    by (simp add: scheduleSessionNotification_def)
  ultimately show ?thesis by blast
qed

text \<open>
  C9, amended. When \<open>date\<close> and \<open>time\<close> combine to an instant, the trigger is that
  instant minus one hour. Null is returned and nothing is registered when the platform
  is web, when the trigger is not after now, or when the collaborator's call fails.
  Otherwise one request is registered at the trigger, with the session id as its data
  and the patient name and time in its body text, and its identifier is returned.
\<close>

theorem schedule_result:
  assumes "new_Date (e_tz e) (c_date s @ ''T'' @ c_time s) = Some t"
  shows "scheduleSessionNotification e s st =
     (if e_platform e = Web \<or> t - 3600000 \<le> e_now e \<or> failing st then (None, st)
      else (Some (fresh st),
            st\<lparr>scheduled := scheduled st @
                   [(fresh st,
                     \<lparr> n_title = ''Upcoming Session Reminder'',
                       n_body = ''You have a session with '' @ c_patientName s
                                @ '' at '' @ c_time s,
                       n_data_sessionId = c_id s,
                       n_trigger = Some (t - 3600000) \<rparr>)],
               fresh := fresh st + 1\<rparr>))"
  using assms
  by (simp add: scheduleSessionNotification_def scheduleNotificationAsync_def Let_def)

theorem schedule_result_witness:
  "scheduleSessionNotification phone (transformSession tomorrow_session) idle =
     (Some 0,
      \<lparr> scheduled =
          [(0, \<lparr> n_title = ''Upcoming Session Reminder'',
                 n_body = ''You have a session with Asha at 08:30'',
                 n_data_sessionId = ''s3'',
                 n_trigger = Some 1741658400000 \<rparr>)],
        fresh = 1, failing = False \<rparr>)"
proof -
  have p: "new_Date (e_tz phone) (c_date (transformSession tomorrow_session) @ ''T''
       @ c_time (transformSession tomorrow_session)) = Some 1741662000000"
    by code_simp
  show ?thesis
    using schedule_result [OF p, of idle]
    by (simp add: fixtures transformSession_def)
qed

section \<open>Reminders on create and update\<close>

lemma schedule_appends:
  "\<exists>new. scheduled (snd (scheduleSessionNotification e s st)) = scheduled st @ new
         \<and> length new \<le> 1"
  by (simp add: scheduleSessionNotification_def scheduleNotificationAsync_def Let_def
       split: option.splits)

lemma reopened_form_value:
  "initialFormState (e_tz phone) (e_now phone) [] [asha] (Some paid_evening) =
     Some \<lparr> f_patientId = ''p1'', f_date = Some 1741564800000, f_time = Some 946740600000,
            f_notes = [], f_amount = Val 500, f_patients = [asha] \<rparr>"
  by code_simp

lemma form_throws_on_null_amount:
  "initialFormState tz now pre ps (Some (transformSession (s\<lparr>amount := None\<rparr>))) = None"
  by (simp add: initialFormState_def transformSession_def)

lemma after_create_value:
  "after_create =
     (Saved paid_evening,
      clinic\<lparr>sessions := [paid_session, open_session, tomorrow_session,
                           evening_session\<lparr>amount := Some 500\<rparr>]\<rparr>,
      \<lparr> scheduled =
          [(0, \<lparr> n_title = ''Upcoming Session Reminder'',
                 n_body = ''You have a session with Asha at 21:00'',
                 n_data_sessionId = ''s7'', n_trigger = Some 1741617000000 \<rparr>)],
        fresh = 1, failing = False \<rparr>)"
  by code_simp

lemma after_update_value:
  "after_update =
     (Saved (paid_evening\<lparr>c_time := ''21:30''\<rparr>),
      clinic\<lparr>sessions := [paid_session, open_session, tomorrow_session,
                           evening_session\<lparr>time := ''21:30'', amount := Some 500\<rparr>]\<rparr>,
      \<lparr> scheduled =
          [(0, \<lparr> n_title = ''Upcoming Session Reminder'',
                 n_body = ''You have a session with Asha at 21:00'',
                 n_data_sessionId = ''s7'', n_trigger = Some 1741617000000 \<rparr>),
           (1, \<lparr> n_title = ''Upcoming Session Reminder'',
                 n_body = ''You have a session with Asha at 21:30'',
                 n_data_sessionId = ''s7'', n_trigger = Some 1741618800000 \<rparr>)],
        fresh = 2, failing = False \<rparr>)"
  unfolding after_update_def reopened_form_value after_create_value snd_conv option.case
  by code_simp

text \<open>
  C6, as stated, fails: the form never cancels. A session is created for 21:00 with the
  amount 500; it is opened in the form again and saved with the time moved to 21:30.
  Two reminders are then pending for the same session, with triggers 20:00 and 20:30.
\<close>

theorem update_leaves_two_reminders:
  "fst after_create = Saved paid_evening
   \<and> map (n_data_sessionId \<circ> snd) (scheduled (snd (snd after_create))) = [''s7'']
   \<and> initialFormState (e_tz phone) (e_now phone) [] [asha] (Some paid_evening) \<noteq> None
   \<and> fst after_update = Saved (paid_evening\<lparr>c_time := ''21:30''\<rparr>)
   \<and> map (n_data_sessionId \<circ> snd) (scheduled (snd (snd after_update))) = [''s7'', ''s7'']
   \<and> map (n_trigger \<circ> snd) (scheduled (snd (snd after_update)))
       = [Some 1741617000000, Some 1741618800000]"
  by (simp add: after_create_value after_update_value reopened_form_value)

text \<open>
  C6, amended. A submit of the session form, create or update and whatever fields
  changed, calls the scheduler at most once and never cancels: every reminder pending
  before is still pending afterwards, in the same order, and at most one is added.
\<close>

theorem handleSubmit_never_cancels:
  assumes "handleSubmit e uid oid f ex (d, st) = (r, d', st')"
  shows "\<exists>new. scheduled st' = scheduled st @ new \<and> length new \<le> 1"
proof (cases "f_patientId f = []")
  case True
  with assms show ?thesis by (simp add: handleSubmit_def)
next
  case False
  show ?thesis
  proof (cases ex)
    case None
    with False assms schedule_appends show ?thesis
      by (auto simp: handleSubmit_def Let_def split: sum.splits)
  next
    case (Some c)
    with False assms schedule_appends show ?thesis
      by (auto simp: handleSubmit_def Let_def split: sum.splits)
  qed
qed

theorem handleSubmit_never_cancels_witness:
  "\<exists>new. scheduled (snd (snd after_update)) = scheduled (snd (snd after_create)) @ new
         \<and> length new \<le> 1"
proof -
  have "handleSubmit phone ''u1'' ''s8''
       (\<lparr> f_patientId = ''p1'', f_date = Some 1741564800000, f_time = Some 946740600000,
          f_notes = [], f_amount = Val 500, f_patients = [asha] \<rparr>
        \<lparr>f_time := Some 1741622400000\<rparr>)
       (Some paid_evening)
       (fst (snd after_create), snd (snd after_create))
     = (fst after_update, fst (snd after_update), snd (snd after_update))"
    by (simp add: after_update_def reopened_form_value)
  then show ?thesis by (rule handleSubmit_never_cancels)
qed

end
